theory Spec2Isabelle
  imports Main "HOL-Library.Word"
begin

section \<open>Stage partitions: \<open>MapIndexType\<close> (tbcml/core/game_data/map/map.py)\<close>

text \<open>
  The enum \<open>MapIndexType\<close>, its members in declaration order, and the integer each
  member carries (\<open>.value\<close> in the source).
\<close>

datatype MapIndexType =
    SOL | REGULAR_EVENT | COLLAB | STORY | EXTRA | DOJO_CATCLAW | TOWER | CHALLENGE
  | UNCANNY | DRINK | LEGEND_QUEST | OUTBREAKS_EOC | OUTBREAKS_ITF | OUTBREAKS_COTC
  | FILIBUSTER | GAUNTLET | ENGIMA | COLLAB_GAUNTLET | BEHEMOTH

fun MapIndexType_value :: "MapIndexType \<Rightarrow> int" where
  "MapIndexType_value SOL = 0"
| "MapIndexType_value REGULAR_EVENT = 1000"
| "MapIndexType_value COLLAB = 2000"
| "MapIndexType_value STORY = 3000"
| "MapIndexType_value EXTRA = 4000"
| "MapIndexType_value DOJO_CATCLAW = 6000"
| "MapIndexType_value TOWER = 7000"
| "MapIndexType_value CHALLENGE = 12000"
| "MapIndexType_value UNCANNY = 13000"
| "MapIndexType_value DRINK = 14000"
| "MapIndexType_value LEGEND_QUEST = 16000"
| "MapIndexType_value OUTBREAKS_EOC = 20000"
| "MapIndexType_value OUTBREAKS_ITF = 21000"
| "MapIndexType_value OUTBREAKS_COTC = 22000"
| "MapIndexType_value FILIBUSTER = 23000"
| "MapIndexType_value GAUNTLET = 24000"
| "MapIndexType_value ENGIMA = 25000"
| "MapIndexType_value COLLAB_GAUNTLET = 27000"
| "MapIndexType_value BEHEMOTH = 31000"

definition MapIndexType_members :: "MapIndexType list" where
  "MapIndexType_members =
     [SOL, REGULAR_EVENT, COLLAB, STORY, EXTRA, DOJO_CATCLAW, TOWER, CHALLENGE,
      UNCANNY, DRINK, LEGEND_QUEST, OUTBREAKS_EOC, OUTBREAKS_ITF, OUTBREAKS_COTC,
      FILIBUSTER, GAUNTLET, ENGIMA, COLLAB_GAUNTLET, BEHEMOTH]"

text \<open>
  Python list indexing \<open>xs[j]\<close>: a negative index counts from the end of the list.
  Inside \<open>from_index\<close> the index is \<open>i\<close> or \<open>i - 1\<close> with \<open>0 \<le> i < len(xs)\<close>,
  so the read never raises; \<open>i - 1\<close> is \<open>-1\<close> when \<open>i = 0\<close>, which reads the last
  element.
\<close>

definition py_index :: "'a list \<Rightarrow> int \<Rightarrow> 'a" where
  "py_index xs j = (if j < 0 then xs ! nat (int (length xs) + j) else xs ! nat j)"

text \<open>
  \<open>sorted(MapIndexType, key=lambda x: x.value)\<close>: a stable sort of the members by
  their value.
\<close>

definition types_sorted :: "MapIndexType list" where
  "types_sorted = sort_key MapIndexType_value MapIndexType_members"

text \<open>
  The loop \<open>for i in range(len(types_sorted))\<close> of \<open>MapIndexType.from_index\<close>, as
  a recursion over the remaining values of \<open>i\<close>; falling out of the loop returns
  \<open>None\<close>.
\<close>

fun from_index_loop :: "MapIndexType list \<Rightarrow> int \<Rightarrow> nat list \<Rightarrow> MapIndexType option" where
  "from_index_loop ts index [] = None"
| "from_index_loop ts index (i # rest) =
     (if index < MapIndexType_value (py_index ts (int i))
        then Some (py_index ts (int i - 1))
      else if index = MapIndexType_value (py_index ts (int i))
        then Some (py_index ts (int i))
      else from_index_loop ts index rest)"

definition from_index :: "int \<Rightarrow> MapIndexType option" where
  "from_index index = from_index_loop types_sorted index [0 ..< length types_sorted]"

text \<open>
  What the specification asks of \<open>from_index\<close>: the member whose marker is the
  greatest marker not above the index, and nothing when no marker is.
\<close>

definition greatest_marker_below :: "int \<Rightarrow> MapIndexType option" where
  "greatest_marker_below index =
     (case filter (\<lambda>t. MapIndexType_value t \<le> index) types_sorted of
        [] \<Rightarrow> None
      | ts \<Rightarrow> Some (last ts))"

section \<open>Obtainability of a cat (bcml/core/game_data/cat_base/cats.py)\<close>

datatype GatchaRarity = G_NONE | G_RARE | G_SUPER_RARE | G_UBER_RARE | G_LEGEND_RARE

datatype Rarity = NORMAL | SPECIAL | RARE | SUPER_RARE | UBER_RARE | LEGEND_RARE

text \<open>
  \<open>UnitBuyData\<close>: one attribute per assignment of \<open>UnitBuyData.assign\<close>.

  Modelled from the spec: \<open>unit.EvolveItems\<close> is not among the sources. The record
  keeps the slots 28 to 47 of the row ("evolution requirements" among the 63 slots of
  \<open>UnitBuy\<close>) as the list that \<open>EvolveItems.to_list()\<close> gives back.
\<close>

record UnitBuyData =
  ub_cat_id :: int
  stage_unlock :: int
  purchase_cost :: int
  upgrade_costs :: "int list"
  unlock_source :: int
  rarity :: Rarity
  position_order :: int
  chapter_unlock :: int
  sell_price :: int
  gatya_rarity :: GatchaRarity
  original_max_level :: int
  unknown_19 :: int
  force_true_form_level :: int
  second_form_levels :: "int \<times> int"
  true_form_id :: int
  unknown_24 :: int
  third_form_levels :: "int \<times> int"
  evolve_cost :: int
  evolve_items :: "int list"
  unknown_48 :: int
  max_upgrade_level_no_catseye :: int
  max_upgrade_level_catseye :: int
  max_plus_upgrade_level :: int
  unknown_52 :: int
  unknown_53 :: int
  unknown_54 :: int
  unknown_55 :: int
  evolve_count :: int
  game_version :: int
  np_sell_price :: int
  unknown_59 :: int
  unknown_60 :: int
  unknown_61 :: int
  unknown_62 :: int

definition ub_set_obtainable :: "UnitBuyData \<Rightarrow> bool \<Rightarrow> UnitBuyData" where
  "ub_set_obtainable u obtainable =
     (if \<not> obtainable then u\<lparr>game_version := -1\<rparr>
      else u\<lparr>game_version := (if game_version u = -1 then 0 else game_version u)\<rparr>)"

definition ub_is_obtainable :: "UnitBuyData \<Rightarrow> bool" where
  "ub_is_obtainable u = (game_version u \<noteq> -1)"

record NyankoPictureBookData =
  npb_cat_id :: int
  obtainable :: bool
  limited :: bool
  total_forms :: int
  unknown :: int
  scale_0 :: int
  scale_1 :: int
  scale_2 :: int
  scale_3 :: int
  npb_other :: "int list"

definition npb_set_obtainable :: "NyankoPictureBookData \<Rightarrow> bool \<Rightarrow> NyankoPictureBookData" where
  "npb_set_obtainable d b = d\<lparr>obtainable := b\<rparr>"

definition npb_is_obtainable :: "NyankoPictureBookData \<Rightarrow> bool" where
  "npb_is_obtainable d = obtainable d"

text \<open>
  \<open>Cat\<close>: the forms and the talent play no part in obtainability and stay of any
  type.
\<close>

record ('forms, 'talent) Cat =
  cat_id :: int
  forms :: 'forms
  unit_buy_data :: UnitBuyData
  talent :: "'talent option"
  nyanko_picture_book_data :: NyankoPictureBookData
  evolve_text :: "string list option"

definition set_obtainable :: "('f, 't) Cat \<Rightarrow> bool \<Rightarrow> ('f, 't) Cat" where
  "set_obtainable c b =
     c\<lparr>unit_buy_data := ub_set_obtainable (unit_buy_data c) b,
       nyanko_picture_book_data := npb_set_obtainable (nyanko_picture_book_data c) b\<rparr>"

definition is_obtainable :: "('f, 't) Cat \<Rightarrow> bool" where
  "is_obtainable c =
     (ub_is_obtainable (unit_buy_data c) \<and> npb_is_obtainable (nyanko_picture_book_data c))"

section \<open>Importing maps (tbcml/core/game_data/map/map.py)\<close>

text \<open>
  \<open>Map\<close>, with the attributes its constructor stores. The parts of a map
  (\<open>MapOption\<close>, \<open>MapStageData\<close>, the stages, \<open>MapNameImage\<close>, the restriction) stay
  of any type; each is compared by its own \<open>__eq__\<close>, which is equality of the part
  here.
\<close>

record ('opt, 'msd, 'stages, 'img, 'res) Map =
  stage_id :: int
  map_option :: 'opt
  map_stage_data :: 'msd
  stages :: 'stages
  map_name_image :: 'img
  restriction :: "'res option"

text \<open>\<open>Map.__eq__\<close> compares five attributes; \<open>restriction\<close> is not among them.\<close>

definition Map_eq ::
  "('opt, 'msd, 'stages, 'img, 'res) Map \<Rightarrow> ('opt, 'msd, 'stages, 'img, 'res) Map \<Rightarrow> bool" where
  "Map_eq a b =
     (stage_id a = stage_id b \<and> map_option a = map_option b
      \<and> map_stage_data a = map_stage_data b \<and> stages a = stages b
      \<and> map_name_image a = map_name_image b)"

definition Map_ne ::
  "('opt, 'msd, 'stages, 'img, 'res) Map \<Rightarrow> ('opt, 'msd, 'stages, 'img, 'res) Map \<Rightarrow> bool" where
  "Map_ne a b = (\<not> Map_eq a b)"

text \<open>
  \<open>Maps\<close> is a dictionary from map id to \<open>Map\<close>. The body of the loop of
  \<open>Maps.import_maps\<close> for one id: \<open>gd\<close> are the maps read from the game data,
  \<open>other\<close> the imported maps, \<open>self\<close> the maps being updated.
\<close>

definition import_maps_step ::
  "(int \<rightharpoonup> ('o, 'm, 's, 'i, 'r) Map) \<Rightarrow> (int \<rightharpoonup> ('o, 'm, 's, 'i, 'r) Map) \<Rightarrow> int
     \<Rightarrow> (int \<rightharpoonup> ('o, 'm, 's, 'i, 'r) Map) \<Rightarrow> (int \<rightharpoonup> ('o, 'm, 's, 'i, 'r) Map)" where
  "import_maps_step gd other i self =
     (case other i of
        None \<Rightarrow> self
      | Some other_map \<Rightarrow>
          (case gd i of
             Some gd_map \<Rightarrow> if Map_ne gd_map other_map then self(i \<mapsto> other_map) else self
           | None \<Rightarrow> self(i \<mapsto> other_map)))"

text \<open>
  The loop runs over the set \<open>all_keys\<close>, whose iteration order Python does not
  fix: \<open>keys\<close> is that order.
\<close>

definition import_maps ::
  "int list \<Rightarrow> (int \<rightharpoonup> ('o, 'm, 's, 'i, 'r) Map) \<Rightarrow> (int \<rightharpoonup> ('o, 'm, 's, 'i, 'r) Map)
     \<Rightarrow> (int \<rightharpoonup> ('o, 'm, 's, 'i, 'r) Map) \<Rightarrow> (int \<rightharpoonup> ('o, 'm, 's, 'i, 'r) Map)" where
  "import_maps keys gd other self = fold (import_maps_step gd other) keys self"

text \<open>The entry the claim describes for one id.\<close>

definition merged_entry ::
  "(int \<rightharpoonup> ('o, 'm, 's, 'i, 'r) Map) \<Rightarrow> (int \<rightharpoonup> ('o, 'm, 's, 'i, 'r) Map)
     \<Rightarrow> (int \<rightharpoonup> ('o, 'm, 's, 'i, 'r) Map) \<Rightarrow> int \<Rightarrow> ('o, 'm, 's, 'i, 'r) Map option" where
  "merged_entry gd other self i =
     (case other i of
        None \<Rightarrow> self i
      | Some m \<Rightarrow>
          (case gd i of
             None \<Rightarrow> Some m
           | Some b \<Rightarrow> if Map_ne b m then Some m else self i))"

section \<open>Strings and bytes\<close>

type_synonym byte = "8 word"

text \<open>
  Modelled from the spec: \<open>tbcml.Data\<close> is not among the sources; it is "an owned byte
  buffer", here the list of its bytes. Two buffers are equal when their bytes are.
\<close>

type_synonym Data = "byte list"

definition str_encode :: "string \<Rightarrow> Data" where
  "str_encode s = map (\<lambda>c. of_nat (of_char c)) s"

definition hex_digit :: "nat \<Rightarrow> char" where
  "hex_digit n = ''0123456789abcdef'' ! (n mod 16)"

definition to_hex :: "Data \<Rightarrow> string" where
  "to_hex d = concat (map (\<lambda>b. [hex_digit (unat b div 16), hex_digit (unat b mod 16)]) d)"

definition hex_value :: "char \<Rightarrow> nat option" where
  "hex_value c =
     (let n = (of_char c :: nat) in
      if 48 \<le> n \<and> n \<le> 57 then Some (n - 48)
      else if 97 \<le> n \<and> n \<le> 102 then Some (n - 87)
      else if 65 \<le> n \<and> n \<le> 70 then Some (n - 55)
      else None)"

text \<open>\<open>str.isspace\<close> on the characters of a byte string, as \<open>str.strip()\<close> uses it.\<close>

definition py_isspace :: "char \<Rightarrow> bool" where
  "py_isspace c = (let n = (of_char c :: nat) in (9 \<le> n \<and> n \<le> 13) \<or> (28 \<le> n \<and> n \<le> 32))"

text \<open>
  \<open>bytes.fromhex\<close> skips ASCII whitespace (space, tab, newline, return, vertical tab,
  form feed) between the bytes and raises \<open>ValueError\<close> (\<open>None\<close>) on anything that is
  not a pair of hexadecimal digits.
\<close>

definition ascii_whitespace :: "char \<Rightarrow> bool" where
  "ascii_whitespace c = (let n = (of_char c :: nat) in (9 \<le> n \<and> n \<le> 13) \<or> n = 32)"

fun bytes_fromhex :: "string \<Rightarrow> Data option" where
  "bytes_fromhex [] = Some []"
| "bytes_fromhex [c] = (if ascii_whitespace c then Some [] else None)"
| "bytes_fromhex (c # d # rest) =
     (if ascii_whitespace c then bytes_fromhex (d # rest)
      else (case (hex_value c, hex_value d) of
              (Some h, Some l) \<Rightarrow> Option.map_option ((#) (of_nat (16 * h + l))) (bytes_fromhex rest)
            | _ \<Rightarrow> None))"

definition char_lower :: "char \<Rightarrow> char" where
  "char_lower c =
     (case map_of (zip ''ABCDEFGHIJKLMNOPQRSTUVWXYZ'' ''abcdefghijklmnopqrstuvwxyz'') c of
        Some l \<Rightarrow> l
      | None \<Rightarrow> c)"

definition str_lower :: "string \<Rightarrow> string" where
  "str_lower s = map char_lower s"

definition startswith :: "string \<Rightarrow> string \<Rightarrow> bool" where
  "startswith s pre = (take (length pre) s = pre)"

definition endswith :: "string \<Rightarrow> string \<Rightarrow> bool" where
  "endswith s suf = (length suf \<le> length s \<and> drop (length s - length suf) s = suf)"

fun str_contains :: "string \<Rightarrow> string \<Rightarrow> bool" where
  "str_contains sub [] = (sub = [])"
| "str_contains sub (c # s) = (startswith (c # s) sub \<or> str_contains sub s)"

fun str_split :: "char \<Rightarrow> string \<Rightarrow> string list" where
  "str_split sep [] = [[]]"
| "str_split sep (c # s) =
     (if c = sep then [] # str_split sep s
      else (case str_split sep s of
              [] \<Rightarrow> [[c]]
            | w # ws \<Rightarrow> (c # w) # ws))"

function str_replace :: "string \<Rightarrow> string \<Rightarrow> string \<Rightarrow> string" where
  "str_replace old new s =
     (if old = [] \<or> s = [] then s
      else if startswith s old then new @ str_replace old new (drop (length old) s)
      else hd s # str_replace old new (tl s))"
  by pat_completeness auto
termination
  by (relation "measure (\<lambda>(old, new, s). length s)") auto

section \<open>Crypto (tbcml/crypto.py)\<close>

datatype error = ValueError | FileNotFoundError

datatype CountryCode = EN | JP | KR | TW

text \<open>
  Modelled from the spec: \<open>tbcml.GameVersion\<close> is not among the sources; it is "an
  ordered version triple with comparison", compared here part by part.
\<close>

datatype GameVersion = GameVersion (major: nat) (minor: nat) (patch: nat)

definition gv_less :: "GameVersion \<Rightarrow> GameVersion \<Rightarrow> bool" where
  "gv_less a b =
     (major a < major b \<or> (major a = major b \<and>
        (minor a < minor b \<or> (minor a = minor b \<and> patch a < patch b))))"

definition gv_8_9_0 :: GameVersion where
  "gv_8_9_0 = GameVersion 8 9 0"

datatype AesMode = MODE_ECB | MODE_CBC

text \<open>
  What the code calls and the sources do not hold: the AES primitive of Cryptodome
  (key, mode, iv, data; \<open>None\<close> when the library raises \<open>ValueError\<close>), \<open>hashlib.md5\<close>,
  and \<open>GameVersion.is_java\<close>.
\<close>

record ext =
  AES_encrypt :: "Data \<Rightarrow> AesMode \<Rightarrow> Data option \<Rightarrow> Data \<Rightarrow> Data option"
  AES_decrypt :: "Data \<Rightarrow> AesMode \<Rightarrow> Data option \<Rightarrow> Data \<Rightarrow> Data option"
  md5 :: "Data \<Rightarrow> Data"
  is_java :: "GameVersion \<Rightarrow> bool"

text \<open>\<open>Hash(HashAlgorithm.MD5).get_hash(data, length)\<close>.\<close>

definition get_hash_md5 :: "ext \<Rightarrow> Data \<Rightarrow> nat option \<Rightarrow> Data" where
  "get_hash_md5 X data len =
     (case len of None \<Rightarrow> md5 X data | Some n \<Rightarrow> take n (md5 X data))"

record AesCipher =
  key :: Data
  iv :: "Data option"
  mode :: AesMode
  enable :: bool

definition AesCipher_init :: "Data \<Rightarrow> Data option \<Rightarrow> AesMode option \<Rightarrow> bool \<Rightarrow> AesCipher" where
  "AesCipher_init k i m en =
     \<lparr>key = k, iv = i,
      mode = (case m of None \<Rightarrow> (if i = None then MODE_ECB else MODE_CBC) | Some m' \<Rightarrow> m'),
      enable = en\<rparr>"

definition AesCipher_encrypt :: "ext \<Rightarrow> AesCipher \<Rightarrow> Data \<Rightarrow> error + Data" where
  "AesCipher_encrypt X c data =
     (if \<not> enable c then Inr data
      else (case AES_encrypt X (key c) (mode c) (iv c) data of
              None \<Rightarrow> Inl ValueError
            | Some r \<Rightarrow> Inr r))"

definition AesCipher_decrypt :: "ext \<Rightarrow> AesCipher \<Rightarrow> Data \<Rightarrow> error + Data" where
  "AesCipher_decrypt X c data =
     (if \<not> enable c then Inr data
      else (case AES_decrypt X (key c) (mode c) (iv c) data of
              None \<Rightarrow> Inl ValueError
            | Some r \<Rightarrow> Inr r))"

fun get_key_iv_from_cc :: "CountryCode \<Rightarrow> string \<times> string" where
  "get_key_iv_from_cc JP = (''d754868de89d717fa9e7b06da45ae9e3'', ''40b2131a9f388ad4e5002a98118f6128'')"
| "get_key_iv_from_cc EN = (''0ad39e4aeaf55aa717feb1825edef521'', ''d1d7e708091941d90cdf8aa5f30bb0c2'')"
| "get_key_iv_from_cc KR = (''bea585eb993216ef4dcb88b625c3df98'', ''9b13c2121d39f1353a125fed98696649'')"
| "get_key_iv_from_cc TW = (''313d9858a7fb939def1d7d859629087d'', ''0e3743eb53bf5944d1ae7e10c2e54bdf'')"

definition is_server_pack :: "string \<Rightarrow> bool" where
  "is_server_pack pack_name = str_contains ''Server'' pack_name"

definition is_image_data_local_pack :: "string \<Rightarrow> bool" where
  "is_image_data_local_pack pack_name = str_contains ''imagedatalocal'' (str_lower pack_name)"

definition get_cipher_from_pack ::
  "ext \<Rightarrow> CountryCode \<Rightarrow> string \<Rightarrow> GameVersion \<Rightarrow> bool \<Rightarrow> string option \<Rightarrow> string option
     \<Rightarrow> error + AesCipher" where
  "get_cipher_from_pack X cc pack_name gv force_server k i =
     (let (cc_key, cc_iv) = get_key_iv_from_cc cc;
          k' = (case k of None \<Rightarrow> cc_key | Some s \<Rightarrow> s);
          i' = (case i of None \<Rightarrow> cc_iv | Some s \<Rightarrow> s);
          en = (if force_server then True else \<not> is_image_data_local_pack pack_name)
      in if is_server_pack pack_name \<or> gv_less gv gv_8_9_0 \<or> force_server
         then Inr (AesCipher_init
                     (str_encode (to_hex (get_hash_md5 X (str_encode ''battlecats'') (Some 8))))
                     None (Some MODE_ECB) en)
         else (case bytes_fromhex k' of
                 None \<Rightarrow> Inl ValueError
               | Some kb \<Rightarrow>
                   (case bytes_fromhex i' of
                      None \<Rightarrow> Inl ValueError
                    | Some ib \<Rightarrow> Inr (AesCipher_init kb (Some ib) (Some MODE_CBC) en))))"

text \<open>
  Modelled from the spec: \<open>Data.pad_pkcs7\<close> and \<open>Data.unpad_pkcs7\<close> are not among the
  sources. They are the PKCS#7 padding of the spec, for the 16-byte block of AES:
  padding appends \<open>n\<close> bytes of value \<open>n\<close>, \<open>1 \<le> n \<le> 16\<close>, up to the next block
  boundary; unpadding takes them off and raises \<open>ValueError\<close> (\<open>None\<close>) when the
  buffer does not end in such a padding.
\<close>

definition pad_pkcs7 :: "Data \<Rightarrow> Data" where
  "pad_pkcs7 d = (let n = 16 - length d mod 16 in d @ replicate n (of_nat n))"

definition unpad_pkcs7 :: "Data \<Rightarrow> Data option" where
  "unpad_pkcs7 d =
     (if d = [] then None
      else (let n = unat (last d)
            in if n = 0 \<or> 16 < n \<or> length d < n
                  \<or> drop (length d - n) d \<noteq> replicate n (last d)
               then None
               else Some (take (length d - n) d)))"

section \<open>Game files and packs (tbcml/game_data/pack.py)\<close>

text \<open>
  \<open>GameFile\<close>: \<open>private_dec_data\<close> is the attribute \<open>__dec_data\<close> behind the property
  \<open>dec_data\<close>.
\<close>

record GameFile =
  enc_data :: "Data option"
  file_name :: string
  gf_pack_name :: string
  gf_cc :: CountryCode
  gf_gv :: GameVersion
  gf_key :: "string option"
  gf_iv :: "string option"
  private_dec_data :: "Data option"
  original_dec_data :: "Data option"

definition GameFile_init ::
  "Data option \<Rightarrow> string \<Rightarrow> string \<Rightarrow> CountryCode \<Rightarrow> GameVersion \<Rightarrow> string option
     \<Rightarrow> string option \<Rightarrow> Data option \<Rightarrow> GameFile" where
  "GameFile_init enc name pname cc gv k i dec =
     \<lparr>enc_data = enc, file_name = name, gf_pack_name = pname, gf_cc = cc, gf_gv = gv,
      gf_key = k, gf_iv = i, private_dec_data = dec, original_dec_data = None\<rparr>"

text \<open>
  The getter of the property \<open>dec_data\<close>: it returns the plaintext and the file, whose
  \<open>__dec_data\<close> holds the plaintext from then on.
\<close>

definition dec_data :: "ext \<Rightarrow> GameFile \<Rightarrow> error + (Data \<times> GameFile)" where
  "dec_data X f =
     (case private_dec_data f of
        Some d \<Rightarrow> Inr (d, f)
      | None \<Rightarrow>
          (case get_cipher_from_pack X (gf_cc f) (gf_pack_name f) (gf_gv f) False
                  (gf_key f) (gf_iv f) of
             Inl e \<Rightarrow> Inl e
           | Inr cipher \<Rightarrow>
               (case enc_data f of
                  None \<Rightarrow> Inl ValueError
                | Some enc \<Rightarrow>
                    (case AesCipher_decrypt X cipher enc of
                       Inl e \<Rightarrow> Inl e
                     | Inr data \<Rightarrow>
                         (let data' = (case unpad_pkcs7 data of None \<Rightarrow> data | Some u \<Rightarrow> u)
                          in Inr (data', f\<lparr>private_dec_data := Some data'\<rparr>))))))"

definition encrypt ::
  "ext \<Rightarrow> GameFile \<Rightarrow> bool \<Rightarrow> string option \<Rightarrow> string option \<Rightarrow> error + Data" where
  "encrypt X f force_server k i =
     (case (if private_dec_data f = None \<or> private_dec_data f = original_dec_data f
            then enc_data f
            else if is_image_data_local_pack (gf_pack_name f) \<and> \<not> force_server
            then enc_data f
            else None) of
        Some enc \<Rightarrow> Inr enc
      | None \<Rightarrow>
          (case private_dec_data f of
             None \<Rightarrow> Inl ValueError
           | Some d \<Rightarrow>
               (case get_cipher_from_pack X (gf_cc f) (gf_pack_name f) (gf_gv f)
                       force_server k i of
                  Inl e \<Rightarrow> Inl e
                | Inr cipher \<Rightarrow> AesCipher_encrypt X cipher (pad_pkcs7 d))))"

definition is_anim :: "string \<Rightarrow> bool" where
  "is_anim name = list_ex (endswith name) [''.maanim'', ''.mamodel'', ''.imgcut'']"

text \<open>
  A Python dictionary keeps its keys in insertion order: it is a list of pairs with
  distinct keys. \<open>d[k] = v\<close> replaces the value of a key that is there and appends a new
  key at the end.
\<close>

fun dict_set :: "'k \<Rightarrow> 'v \<Rightarrow> ('k \<times> 'v) list \<Rightarrow> ('k \<times> 'v) list" where
  "dict_set k v [] = [(k, v)]"
| "dict_set k v ((k', v') # d) = (if k' = k then (k, v) # d else (k', v') # dict_set k v d)"

record PackFile =
  pack_name :: string
  pf_country_code :: CountryCode
  pf_gv :: GameVersion
  files :: "(string \<times> GameFile) list"
  modified :: bool

text \<open>\<open>PackFile.set_file\<close>: the file it returns and the pack after the call.\<close>

definition PackFile_set_file :: "PackFile \<Rightarrow> string \<Rightarrow> Data \<Rightarrow> GameFile \<times> PackFile" where
  "PackFile_set_file p name file_data =
     (case map_of (files p) name of
        None \<Rightarrow>
          (let f = GameFile_init None name (pack_name p) (pf_country_code p) (pf_gv p)
                     None None (Some file_data)
           in (f, p\<lparr>files := dict_set (file_name f) f (files p)\<rparr>))
      | Some f \<Rightarrow>
          (let f' = f\<lparr>private_dec_data := Some file_data\<rparr>
           in (f', p\<lparr>files := map (\<lambda>(n, g). if n = name then (n, f') else (n, g)) (files p)\<rparr>)))"

text \<open>
  Modelled from the spec: \<open>tbcml.Languages\<close> is not among the sources; its strings are
  "the known set \<open>{en, ja, ko, tw, de, es, fr, it, th}\<close>".
\<close>

definition Languages_get_all_strings :: "string list" where
  "Languages_get_all_strings =
     [''en'', ''ja'', ''ko'', ''tw'', ''de'', ''es'', ''fr'', ''it'', ''th'']"

definition convert_pack_name_server_local :: "string \<Rightarrow> string" where
  "convert_pack_name_server_local pname =
     (let packs = [''MapServer'', ''NumberServer'', ''UnitServer'', ''ImageServer'',
                   ''ImageDataServer''];
          file_name1 = (case filter (\<lambda>pack. str_contains pack pname) packs of
                          [] \<Rightarrow> pname
                        | pack # _ \<Rightarrow> str_replace ''Server'' ''Local'' pack)
      in (case filter (\<lambda>lang. str_contains (''_'' @ lang) file_name1)
                 Languages_get_all_strings of
            [] \<Rightarrow> file_name1
          | lang # _ \<Rightarrow> str_replace (''_'' @ lang) [] file_name1))"

text \<open>
  Modelled from the spec: \<open>tbcml.CSV\<close> is not among the sources. The list of a pack is
  the comma-delimited text of section 6.1 of the spec, integers in decimal.
\<close>

definition dec_digit :: "nat \<Rightarrow> char" where
  "dec_digit n = ''0123456789'' ! (n mod 10)"

function str_of_nat :: "nat \<Rightarrow> string" where
  "str_of_nat n = (if n < 10 then [dec_digit n] else str_of_nat (n div 10) @ [dec_digit n])"
  by pat_completeness auto
termination
  by (relation "measure id") auto

fun str_join :: "string \<Rightarrow> string list \<Rightarrow> string" where
  "str_join sep [] = []"
| "str_join sep [x] = x"
| "str_join sep (x # y # rest) = x @ sep @ str_join sep (y # rest)"

definition CSV_to_data :: "string list list \<Rightarrow> Data" where
  "CSV_to_data lines = str_encode (str_join [CHR 0x0A] (map (str_join '','') lines))"

text \<open>
  The loop of \<open>PackFile.to_pack_list_file\<close> over the files of the pack: the lines of the
  list and the ciphertexts, from the running offset.
\<close>

fun encrypt_files ::
  "ext \<Rightarrow> (string \<times> GameFile) list \<Rightarrow> string option \<Rightarrow> string option \<Rightarrow> nat
     \<Rightarrow> error + (string list list \<times> Data list)" where
  "encrypt_files X [] k i offset = Inr ([], [])"
| "encrypt_files X ((n, f) # rest) k i offset =
     (case encrypt X f False k i of
        Inl e \<Rightarrow> Inl e
      | Inr data \<Rightarrow>
          (case encrypt_files X rest k i (offset + length data) of
             Inl e \<Rightarrow> Inl e
           | Inr (ls, ds) \<Rightarrow>
               Inr ([file_name f, str_of_nat offset, str_of_nat (length data)] # ls, data # ds)))"

definition to_pack_list_file ::
  "ext \<Rightarrow> PackFile \<Rightarrow> string option \<Rightarrow> string option \<Rightarrow> error + (string \<times> Data \<times> Data)" where
  "to_pack_list_file X p k i =
     (case encrypt_files X (files p) k i 0 of
        Inl e \<Rightarrow> Inl e
      | Inr (ls, ds) \<Rightarrow>
          (let ls_data = pad_pkcs7 (CSV_to_data ([str_of_nat (length (files p))] # ls));
               cipher = AesCipher_init
                          (str_encode (to_hex (get_hash_md5 X (str_encode ''pack'') (Some 8))))
                          None None True
           in (case AesCipher_encrypt X cipher ls_data of
                 Inl e \<Rightarrow> Inl e
               | Inr enc_ls \<Rightarrow> Inr (pack_name p, concat ds, enc_ls))))"

text \<open>
  \<open>GamePacks\<close>. The CSV cache and the localizable are not touched by the operations
  below and stay of any type.
\<close>

record ('csv, 'loc) GamePacks =
  packs :: "(string \<times> PackFile) list"
  gp_country_code :: CountryCode
  gp_gv :: GameVersion
  modified_packs :: "(string \<times> bool) list"
  csv_cache :: 'csv
  localizable :: 'loc

definition get_pack :: "('c, 'l) GamePacks \<Rightarrow> string \<Rightarrow> PackFile option" where
  "get_pack s pname = map_of (packs s) pname"

text \<open>
  The first loop of \<open>GamePacks.find_file\<close>: the files found, each with the key of its
  pack in \<open>self.packs\<close>.
\<close>

definition lang_suffixed :: "string \<Rightarrow> bool" where
  "lang_suffixed pname =
     (let split_pack_name = str_split CHR ''_'' pname
      in 1 < length split_pack_name \<and> split_pack_name ! 1 \<in> set Languages_get_all_strings)"

fun found_files :: "(string \<times> PackFile) list \<Rightarrow> string \<Rightarrow> (string \<times> GameFile) list" where
  "found_files [] name = []"
| "found_files ((pname, p) # rest) name =
     (case map_of (files p) name of
        None \<Rightarrow> found_files rest name
      | Some f \<Rightarrow>
          (if lang_suffixed pname then found_files rest name
           else (pname, f) # found_files rest name))"

text \<open>
  A file found sits in the pack of key \<open>k\<close> under its name; reading its \<open>dec_data\<close>
  changes it there.
\<close>

definition store_file ::
  "('c, 'l) GamePacks \<Rightarrow> string \<Rightarrow> string \<Rightarrow> GameFile \<Rightarrow> ('c, 'l) GamePacks" where
  "store_file s k name f =
     s\<lparr>packs := map (\<lambda>(pname, p).
          if pname = k
          then (pname, p\<lparr>files := map (\<lambda>(n, g). if n = name then (n, f) else (n, g)) (files p)\<rparr>)
          else (pname, p)) (packs s)\<rparr>"

definition find_file ::
  "ext \<Rightarrow> ('c, 'l) GamePacks \<Rightarrow> string \<Rightarrow> bool
     \<Rightarrow> error + ((string \<times> GameFile) option \<times> ('c, 'l) GamePacks)" where
  "find_file X s name show_error =
     (case found_files (packs s) name of
        [] \<Rightarrow> Inr (None, s)
      | [a] \<Rightarrow> Inr (Some a, s)
      | [(ka, a), (kb, b)] \<Rightarrow>
          (if \<not> is_server_pack (gf_pack_name a) then Inr (Some (ka, a), s)
           else if \<not> is_server_pack (gf_pack_name b) then Inr (Some (kb, b), s)
           else (case dec_data X a of
                   Inl e \<Rightarrow> Inl e
                 | Inr (da, a') \<Rightarrow>
                     (case dec_data X b of
                        Inl e \<Rightarrow> Inl e
                      | Inr (db, b') \<Rightarrow>
                          (let s' = store_file (store_file s ka name a') kb name b'
                           in if length da > length db then Inr (Some (ka, a'), s')
                              else if length da < length db then Inr (Some (kb, b'), s')
                              else Inr (Some (ka, a'), s')))))
      | _ \<Rightarrow> Inr (None, s))"

fun to_packs_lists_loop ::
  "ext \<Rightarrow> (string \<times> bool) list \<Rightarrow> bool \<Rightarrow> string option \<Rightarrow> string option
     \<Rightarrow> (string \<times> PackFile) list \<Rightarrow> error + (string \<times> Data \<times> Data) list" where
  "to_packs_lists_loop X mp should_reencrypt k i [] = Inr []"
| "to_packs_lists_loop X mp should_reencrypt k i ((pname, p) # rest) =
     (if (map_of mp pname \<noteq> None \<or> modified p \<or> should_reencrypt) \<and> \<not> is_server_pack pname
      then (case to_pack_list_file X p k i of
              Inl e \<Rightarrow> Inl e
            | Inr t \<Rightarrow>
                (case to_packs_lists_loop X mp should_reencrypt k i rest of
                   Inl e \<Rightarrow> Inl e
                 | Inr ts \<Rightarrow> Inr (t # ts)))
      else to_packs_lists_loop X mp should_reencrypt k i rest)"

definition to_packs_lists ::
  "ext \<Rightarrow> ('c, 'l) GamePacks \<Rightarrow> string option \<Rightarrow> string option
     \<Rightarrow> error + (string \<times> Data \<times> Data) list" where
  "to_packs_lists X s k i =
     (let should_reencrypt = ((k \<noteq> None \<or> i \<noteq> None) \<and> \<not> gv_less (gp_gv s) gv_8_9_0)
      in to_packs_lists_loop X (modified_packs s) should_reencrypt k i (packs s))"

definition to_java_name :: "string \<Rightarrow> string" where
  "to_java_name name = str_lower name @ ''1''"

definition get_pack_gv :: "ext \<Rightarrow> ('c, 'l) GamePacks \<Rightarrow> string \<Rightarrow> (string \<times> PackFile) option" where
  "get_pack_gv X s pname =
     (let pname' = (if \<not> endswith pname ''1''
                    then (if is_java X (gp_gv s) then to_java_name pname else pname)
                    else pname)
      in Option.map_option (Pair pname') (get_pack s pname'))"

text \<open>
  The end of \<open>GamePacks.set_file\<close>, from \<open>new_pack_name = ...\<close> on: \<open>file\<close> is the file
  found or made before.
\<close>

definition set_file_write ::
  "ext \<Rightarrow> ('c, 'l) GamePacks \<Rightarrow> GameFile \<Rightarrow> string \<Rightarrow> Data
     \<Rightarrow> error + (GameFile \<times> ('c, 'l) GamePacks)" where
  "set_file_write X s file name data =
     (let new_pack_name = convert_pack_name_server_local (gf_pack_name file)
      in (case get_pack_gv X s new_pack_name of
            None \<Rightarrow> Inl FileNotFoundError
          | Some (k, p) \<Rightarrow>
              (let (f, p') = PackFile_set_file p name data
               in Inr (f, s\<lparr>packs := map (\<lambda>(pname, q). if pname = k then (pname, p') else (pname, q))
                                        (packs s),
                             modified_packs := dict_set (gf_pack_name f) True (modified_packs s)\<rparr>))))"

definition set_file ::
  "ext \<Rightarrow> ('c, 'l) GamePacks \<Rightarrow> string \<Rightarrow> Data \<Rightarrow> error + (GameFile \<times> ('c, 'l) GamePacks)" where
  "set_file X s name data =
     (if list_all py_isspace name then Inl FileNotFoundError
      else (case find_file X s name False of
              Inl e \<Rightarrow> Inl e
            | Inr (None, s1) \<Rightarrow>
                (case (if is_anim name then get_pack_gv X s1 ''ImageDataLocal''
                       else if endswith name ''.png'' then get_pack_gv X s1 ''ImageLocal''
                       else get_pack_gv X s1 ''DataLocal'') of
                   None \<Rightarrow> Inl FileNotFoundError
                 | Some (k, pack) \<Rightarrow>
                     set_file_write X s1
                       (GameFile_init None name (pack_name pack) (gp_country_code s1) (gp_gv s1)
                          None None (Some data))
                       name data)
            | Inr (Some (k, file), s1) \<Rightarrow>
                (case dec_data X file of
                   Inl e \<Rightarrow> Inl e
                 | Inr (d, file') \<Rightarrow>
                     (let s2 = store_file s1 k name file'
                      in if d = data then Inr (file', s2)
                         else set_file_write X s2 file' name data))))"

text \<open>
  To run the model on concrete inputs: a stand-in for the libraries, in which AES of
  block-aligned data gives the data back and raises on any other length (as the
  library does), and MD5 gives sixteen zero bytes. No statement below depends on it
  beyond these lengths.
\<close>

definition stand_in :: ext where
  "stand_in =
     \<lparr>AES_encrypt = (\<lambda>k m i d. if length d mod 16 = 0 then Some d else None),
      AES_decrypt = (\<lambda>k m i d. if length d mod 16 = 0 then Some d else None),
      md5 = (\<lambda>d. replicate 16 0),
      is_java = (\<lambda>v. False)\<rparr>"

definition gv_12 :: GameVersion where
  "gv_12 = GameVersion 12 0 0"

text \<open>A file as \<open>PackFile.from_pack_file\<close> makes it: ciphertext and no plaintext yet.\<close>

definition loaded_file :: "string \<Rightarrow> string \<Rightarrow> Data \<Rightarrow> GameFile" where
  "loaded_file name pname enc = GameFile_init (Some enc) name pname EN gv_12 None None None"

text \<open>A file as \<open>PackFile.set_file\<close> makes it: plaintext and no ciphertext.\<close>

definition written_file :: "string \<Rightarrow> string \<Rightarrow> Data \<Rightarrow> GameFile" where
  "written_file name pname dec = GameFile_init None name pname EN gv_12 None None (Some dec)"

definition pack_of :: "string \<Rightarrow> GameFile list \<Rightarrow> string \<times> PackFile" where
  "pack_of pname fs =
     (pname, \<lparr>pack_name = pname, pf_country_code = EN, pf_gv = gv_12,
              files = map (\<lambda>f. (file_name f, f)) fs, modified = False\<rparr>)"

definition catalog :: "(string \<times> PackFile) list \<Rightarrow> (unit, unit) GamePacks" where
  "catalog ps =
     \<lparr>packs = ps, gp_country_code = EN, gp_gv = gv_12, modified_packs = [],
      csv_cache = (), localizable = ()\<rparr>"

text \<open>
  A catalog with two packs marked dirty, one of them a Server pack, and a clean Local
  pack.
\<close>

definition dirty_catalog :: "(unit, unit) GamePacks" where
  "dirty_catalog =
     (catalog [pack_of ''DataLocal'' [written_file ''a.csv'' ''DataLocal'' [1]],
               pack_of ''MapServer'' [written_file ''m.csv'' ''MapServer'' [2]],
               pack_of ''resLocal'' [written_file ''r.csv'' ''resLocal'' [3]]])
       \<lparr>modified_packs := [(''DataLocal'', True), (''MapServer'', True)]\<rparr>"

section \<open>Theorems\<close>

lemma types_sorted_eq: "types_sorted = MapIndexType_members"
  by (simp add: types_sorted_def MapIndexType_members_def)

text \<open>
  C6. The claim: for every index in [0, 32000) \<open>from_index\<close> returns the partition
  with the greatest marker not above the index, and for a negative index it returns
  nothing. The code does neither at the ends of the table: a negative index is below
  the first marker at \<open>i = 0\<close>, where \<open>types_sorted[i - 1]\<close> is the last member, so
  \<open>from_index (-1)\<close> is \<open>BEHEMOTH\<close>; and an index above the last marker leaves the
  loop, so \<open>from_index 31500\<close> is nothing although \<open>BEHEMOTH\<close> (31000) is the
  greatest marker not above it.
\<close>

theorem from_index_ends:
  "from_index (-1) = Some BEHEMOTH \<and> greatest_marker_below (-1) = None \<and>
   from_index 31500 = None \<and> greatest_marker_below 31500 = Some BEHEMOTH"
  by (simp add: from_index_def greatest_marker_below_def types_sorted_eq
      MapIndexType_members_def py_index_def upt_rec)

text \<open>
  C8. After \<open>set_obtainable(False)\<close> neither record reports the cat obtainable and
  the \<open>game_version\<close> slot is \<open>-1\<close>; after any call of the setter the slot is \<open>-1\<close>
  exactly when the picture-book flag is false.
\<close>

theorem set_obtainable_links_records:
  "\<not> ub_is_obtainable (unit_buy_data (set_obtainable c False)) \<and>
   \<not> npb_is_obtainable (nyanko_picture_book_data (set_obtainable c False)) \<and>
   game_version (unit_buy_data (set_obtainable c False)) = -1 \<and>
   \<not> is_obtainable (set_obtainable c False) \<and>
   (game_version (unit_buy_data (set_obtainable c b)) = -1
      \<longleftrightarrow> \<not> obtainable (nyanko_picture_book_data (set_obtainable c b)))"
  by (simp add: set_obtainable_def ub_set_obtainable_def npb_set_obtainable_def
      ub_is_obtainable_def npb_is_obtainable_def is_obtainable_def)

lemma import_maps_step_other:
  "i \<noteq> j \<Longrightarrow> import_maps_step gd other j self i = self i"
  by (simp add: import_maps_step_def split: option.splits)

lemma import_maps_step_same:
  "import_maps_step gd other i self i = merged_entry gd other self i"
  by (simp add: import_maps_step_def merged_entry_def split: option.splits)

lemma merged_entry_idem:
  "merged_entry gd other (import_maps_step gd other j self) i = merged_entry gd other self i"
  by (cases "i = j")
     (auto simp: merged_entry_def import_maps_step_def split: option.splits)

lemma import_maps_not_in_keys:
  "i \<notin> set keys \<Longrightarrow> fold (import_maps_step gd other) keys self i = self i"
  by (induction keys arbitrary: self) (simp_all add: import_maps_step_other)

lemma import_maps_in_keys:
  "i \<in> set keys \<Longrightarrow>
   fold (import_maps_step gd other) keys self i = merged_entry gd other self i"
proof (induction keys arbitrary: self)
  case Nil
  then show ?case by simp
next
  case (Cons k keys)
  show ?case
  proof (cases "i \<in> set keys")
    case True
    then show ?thesis
      using Cons.IH [of "import_maps_step gd other k self"]
      by (simp add: merged_entry_idem)
  next
    case False
    with Cons.prems have "i = k" by simp
    with False show ?thesis
      by (simp add: import_maps_not_in_keys import_maps_step_same)
  qed
qed

text \<open>
  What \<open>import_maps\<close> leaves at an id, in whatever order the ids are visited: the
  imported map when there is one and either the game data has none or its map differs
  from the imported one in \<open>stage_id\<close>, \<open>map_option\<close>, \<open>map_stage_data\<close>, \<open>stages\<close> or
  \<open>map_name_image\<close>; the entry of \<open>self\<close> otherwise.
\<close>

lemma import_maps_entry:
  assumes "set keys = dom gd \<union> dom other \<union> dom self"
  shows "import_maps keys gd other self i =
           (case other i of
              None \<Rightarrow> self i
            | Some m \<Rightarrow>
                (case gd i of
                   None \<Rightarrow> Some m
                 | Some b \<Rightarrow>
                     if stage_id b \<noteq> stage_id m \<or> map_option b \<noteq> map_option m
                        \<or> map_stage_data b \<noteq> map_stage_data m \<or> stages b \<noteq> stages m
                        \<or> map_name_image b \<noteq> map_name_image m
                     then Some m else self i))"
proof (cases "i \<in> set keys")
  case True
  then show ?thesis
    by (auto simp: import_maps_def import_maps_in_keys merged_entry_def Map_ne_def Map_eq_def
        split: option.splits)
next
  case False
  with assms have "other i = None" by auto
  with False show ?thesis
    by (simp add: import_maps_def import_maps_not_in_keys)
qed

text \<open>
  C9. The claim: where the imported map M differs from the map B of the game data, the
  result holds M. The code compares the two with \<open>Map.__ne__\<close>, and \<open>Map.__eq__\<close> leaves
  \<open>restriction\<close> out of the comparison, so an imported map that differs from the game
  data in its restriction alone is dropped. Here B and M are the map 1 without and with
  a restriction, and \<open>self\<close> holds another map at that id: M differs from B, and the
  result is still the entry of \<open>self\<close>.
\<close>

theorem import_maps_drops_restriction_change:
  "\<lparr>stage_id = 1, map_option = (0::nat), map_stage_data = (0::nat), stages = (0::nat),
     map_name_image = (0::nat), restriction = Some (5::nat)\<rparr>
     \<noteq> \<lparr>stage_id = 1, map_option = 0, map_stage_data = 0, stages = 0,
         map_name_image = 0, restriction = None\<rparr>
   \<and> import_maps [1]
        [(1::int) \<mapsto> \<lparr>stage_id = 1, map_option = (0::nat), map_stage_data = (0::nat),
           stages = (0::nat), map_name_image = (0::nat), restriction = (None :: nat option)\<rparr>]
        [(1::int) \<mapsto> \<lparr>stage_id = 1, map_option = 0, map_stage_data = 0,
           stages = 0, map_name_image = 0, restriction = Some 5\<rparr>]
        [(1::int) \<mapsto> \<lparr>stage_id = 1, map_option = 9, map_stage_data = 0,
           stages = 0, map_name_image = 0, restriction = None\<rparr>]
        1
     = Some \<lparr>stage_id = 1, map_option = 9, map_stage_data = 0, stages = 0,
         map_name_image = 0, restriction = None\<rparr>"
  by (simp add: import_maps_def import_maps_step_def Map_ne_def Map_eq_def)

subsection \<open>The cipher of a pack\<close>

lemmas str_simps = startswith_def endswith_def str_lower_def char_lower_def
  is_server_pack_def is_image_data_local_pack_def hex_value_def py_isspace_def
  ascii_whitespace_def

lemma image_data_local_name [simp]: "is_image_data_local_pack ''ImageDataLocal''"
  by (simp add: str_simps)

lemma data_local_not_image_data [simp]: "\<not> is_image_data_local_pack ''DataLocal''"
  by (simp add: str_simps)

lemma local_names_not_server [simp]:
  "\<not> is_server_pack ''ImageDataLocal''" "\<not> is_server_pack ''DataLocal''"
  by (simp_all add: str_simps)

lemma map_server_name [simp]: "is_server_pack ''MapServer''"
  by (simp add: str_simps)

lemma map_server_not_image_data [simp]: "\<not> is_image_data_local_pack ''MapServer''"
  by (simp add: str_simps)

lemma gv_12_modern [simp]: "\<not> gv_less gv_12 gv_8_9_0"
  by (simp add: gv_less_def gv_12_def gv_8_9_0_def)

lemma en_key: "bytes_fromhex ''0ad39e4aeaf55aa717feb1825edef521'' =
  Some [0x0a,0xd3,0x9e,0x4a,0xea,0xf5,0x5a,0xa7,0x17,0xfe,0xb1,0x82,0x5e,0xde,0xf5,0x21]"
  by (simp add: hex_value_def ascii_whitespace_def)

lemma en_iv: "bytes_fromhex ''d1d7e708091941d90cdf8aa5f30bb0c2'' =
  Some [0xd1,0xd7,0xe7,0x08,0x09,0x19,0x41,0xd9,0x0c,0xdf,0x8a,0xa5,0xf3,0x0b,0xb0,0xc2]"
  by (simp add: hex_value_def ascii_whitespace_def)

lemma get_cipher_server:
  "is_server_pack pname \<or> gv_less gv gv_8_9_0 \<or> force_server \<Longrightarrow>
      get_cipher_from_pack X cc pname gv force_server k i =
        Inr \<lparr>key = str_encode (to_hex (take 8 (md5 X (str_encode ''battlecats'')))),
             iv = None, mode = MODE_ECB,
             enable = (force_server \<or> \<not> is_image_data_local_pack pname)\<rparr>"
  unfolding get_cipher_from_pack_def Let_def
  by (auto simp: AesCipher_init_def get_hash_md5_def split: prod.splits)

lemma get_cipher_local:
  "\<not> is_server_pack pname \<Longrightarrow> \<not> gv_less gv gv_8_9_0 \<Longrightarrow>
   bytes_fromhex ks = Some kb \<Longrightarrow> bytes_fromhex is = Some ib \<Longrightarrow>
   get_cipher_from_pack X cc pname gv False (Some ks) (Some is) =
     Inr \<lparr>key = kb, iv = Some ib, mode = MODE_CBC, enable = (\<not> is_image_data_local_pack pname)\<rparr>"
  unfolding get_cipher_from_pack_def Let_def
  by (simp add: AesCipher_init_def split: prod.splits)

lemma get_cipher_local_cc:
  "\<not> is_server_pack pname \<Longrightarrow> \<not> gv_less gv gv_8_9_0 \<Longrightarrow>
   get_key_iv_from_cc cc = (ks, is) \<Longrightarrow>
   bytes_fromhex ks = Some kb \<Longrightarrow> bytes_fromhex is = Some ib \<Longrightarrow>
   get_cipher_from_pack X cc pname gv False None None =
     Inr \<lparr>key = kb, iv = Some ib, mode = MODE_CBC, enable = (\<not> is_image_data_local_pack pname)\<rparr>"
  unfolding get_cipher_from_pack_def Let_def
  by (simp add: AesCipher_init_def)

lemma get_cipher_enable:
  "get_cipher_from_pack X cc pname gv force_server k i = Inr c \<Longrightarrow>
   enable c = (force_server \<or> \<not> is_image_data_local_pack pname)"
  unfolding get_cipher_from_pack_def Let_def
  by (auto simp: AesCipher_init_def split: prod.splits option.splits if_splits)

text \<open>
  C5, as the code has it. For a Server pack, a game version below 8.9.0 or forced
  server mode the cipher is AES-ECB under the key made of the hexadecimal text of
  the first 8 bytes of \<open>md5("battlecats")\<close>. For an \<open>ImageDataLocal\<close> pack, when
  server mode is not forced, the cipher is disabled and \<open>encrypt\<close> and \<open>decrypt\<close> give
  their argument back, whatever key and iv the caller supplies; forcing server mode
  is what enables it (the \<open>enable\<close> flag of the first part).
\<close>

theorem cipher_derivation:
  "(is_server_pack pname \<or> gv_less gv gv_8_9_0 \<or> force_server \<longrightarrow>
      get_cipher_from_pack X cc pname gv force_server k i =
        Inr \<lparr>key = str_encode (to_hex (take 8 (md5 X (str_encode ''battlecats'')))),
             iv = None, mode = MODE_ECB,
             enable = (force_server \<or> \<not> is_image_data_local_pack pname)\<rparr>)
   \<and> (is_image_data_local_pack pname' \<and> get_cipher_from_pack X cc' pname' gv' False k' i' = Inr c \<longrightarrow>
        AesCipher_encrypt X c d = Inr d \<and> AesCipher_decrypt X c d = Inr d)"
  using get_cipher_server [of pname gv force_server X cc k i]
    get_cipher_enable [of X cc' pname' gv' False k' i' c]
  by (auto simp: AesCipher_encrypt_def AesCipher_decrypt_def)

theorem cipher_derivation_witness:
  "is_server_pack ''MapServer''
   \<and> get_cipher_from_pack stand_in EN ''MapServer'' gv_12 False None None =
        Inr \<lparr>key = str_encode (to_hex (take 8 (md5 stand_in (str_encode ''battlecats'')))),
             iv = None, mode = MODE_ECB, enable = True\<rparr>
   \<and> is_image_data_local_pack ''ImageDataLocal''
   \<and> get_cipher_from_pack stand_in EN ''ImageDataLocal'' gv_12 False None None =
        Inr \<lparr>key = [0x0a,0xd3,0x9e,0x4a,0xea,0xf5,0x5a,0xa7,0x17,0xfe,0xb1,0x82,0x5e,0xde,0xf5,0x21],
        iv = Some [0xd1,0xd7,0xe7,0x08,0x09,0x19,0x41,0xd9,0x0c,0xdf,0x8a,0xa5,0xf3,0x0b,0xb0,0xc2],
        mode = MODE_CBC, enable = False\<rparr>
   \<and> AesCipher_encrypt stand_in
        \<lparr>key = [0x0a,0xd3,0x9e,0x4a,0xea,0xf5,0x5a,0xa7,0x17,0xfe,0xb1,0x82,0x5e,0xde,0xf5,0x21],
        iv = Some [0xd1,0xd7,0xe7,0x08,0x09,0x19,0x41,0xd9,0x0c,0xdf,0x8a,0xa5,0xf3,0x0b,0xb0,0xc2],
        mode = MODE_CBC, enable = False\<rparr> [1, 2, 3] = Inr [1, 2, 3]"
proof -
  have a: "get_cipher_from_pack stand_in EN ''MapServer'' gv_12 False None None =
        Inr \<lparr>key = str_encode (to_hex (take 8 (md5 stand_in (str_encode ''battlecats'')))),
             iv = None, mode = MODE_ECB, enable = True\<rparr>"
    using cipher_derivation [THEN conjunct1, rule_format, OF disjI1 [OF map_server_name],
        of stand_in EN gv_12 False None None]
    by (simp only: map_server_not_image_data simp_thms)
  have b: "get_cipher_from_pack stand_in EN ''ImageDataLocal'' gv_12 False None None =
        Inr \<lparr>key = [0x0a,0xd3,0x9e,0x4a,0xea,0xf5,0x5a,0xa7,0x17,0xfe,0xb1,0x82,0x5e,0xde,0xf5,0x21],
        iv = Some [0xd1,0xd7,0xe7,0x08,0x09,0x19,0x41,0xd9,0x0c,0xdf,0x8a,0xa5,0xf3,0x0b,0xb0,0xc2],
        mode = MODE_CBC, enable = False\<rparr>"
    using get_cipher_local_cc [OF local_names_not_server(1) gv_12_modern
        get_key_iv_from_cc.simps(2) en_key en_iv, of stand_in]
    by (simp only: image_data_local_name simp_thms)
  have e: "AesCipher_encrypt stand_in
        \<lparr>key = [0x0a,0xd3,0x9e,0x4a,0xea,0xf5,0x5a,0xa7,0x17,0xfe,0xb1,0x82,0x5e,0xde,0xf5,0x21],
        iv = Some [0xd1,0xd7,0xe7,0x08,0x09,0x19,0x41,0xd9,0x0c,0xdf,0x8a,0xa5,0xf3,0x0b,0xb0,0xc2],
        mode = MODE_CBC, enable = False\<rparr> [1, 2, 3] = Inr [1, 2, 3]"
    using cipher_derivation [THEN conjunct2, rule_format, OF conjI [OF image_data_local_name b]]
    by (rule conjunct1)
  from map_server_name a image_data_local_name b e show ?thesis by (intro conjI)
qed

text \<open>
  The claim C5 as stated fails in its last part, "supplying a new key to rewrite a
  modern pack re-enables the cipher": for the \<open>ImageDataLocal\<close> pack of a modern game
  version, with a key and an iv supplied, the cipher stays disabled.
\<close>

theorem cipher_new_key_counterexample:
  "map_sum id enable
     (get_cipher_from_pack stand_in EN ''ImageDataLocal'' gv_12 False
        (Some ''0ad39e4aeaf55aa717feb1825edef521'') (Some ''d1d7e708091941d90cdf8aa5f30bb0c2''))
   = Inr False"
proof -
  have "get_cipher_from_pack stand_in EN ''ImageDataLocal'' gv_12 False
        (Some ''0ad39e4aeaf55aa717feb1825edef521'') (Some ''d1d7e708091941d90cdf8aa5f30bb0c2'')
     = Inr \<lparr>key = [0x0a,0xd3,0x9e,0x4a,0xea,0xf5,0x5a,0xa7,0x17,0xfe,0xb1,0x82,0x5e,0xde,0xf5,0x21],
        iv = Some [0xd1,0xd7,0xe7,0x08,0x09,0x19,0x41,0xd9,0x0c,0xdf,0x8a,0xa5,0xf3,0x0b,0xb0,0xc2],
        mode = MODE_CBC, enable = (\<not> is_image_data_local_pack ''ImageDataLocal'')\<rparr>"
    by (rule get_cipher_local [OF local_names_not_server(1) gv_12_modern en_key en_iv])
  then show ?thesis
    by (simp only: map_sum.simps AesCipher.simps image_data_local_name simp_thms)
qed

subsection \<open>Looking a file up: \<open>GamePacks.find_file\<close>\<close>




lemma lang_suffixed_names [simp]:
  "\<not> lang_suffixed ''DataLocal''" "lang_suffixed ''DataLocal_en''"
  "\<not> lang_suffixed ''DataLocal_jp''" "lang_suffixed ''DataLocal_fr''"
  "\<not> lang_suffixed ''MapServer''" "\<not> lang_suffixed ''resLocal''"
  by (simp_all add: lang_suffixed_def Languages_get_all_strings_def)

lemma more_server_names [simp]:
  "\<not> is_server_pack ''DataLocal_jp''" "\<not> is_server_pack ''resLocal''"
  by (simp_all add: str_simps)

lemma found_files_pack_of:
  "found_files (pack_of pname [f] # rest) name =
     (if file_name f = name \<and> \<not> lang_suffixed pname then (pname, f) # found_files rest name
      else found_files rest name)"
  by (simp add: pack_of_def)

lemma written_file_sel [simp]:
  "file_name (written_file name pname d) = name"
  "gf_pack_name (written_file name pname d) = pname"
  "private_dec_data (written_file name pname d) = Some d"
  by (simp_all add: written_file_def GameFile_init_def)

lemma dec_data_cached: "private_dec_data f = Some d \<Longrightarrow> dec_data X f = Inr (d, f)"
  by (simp add: dec_data_def)

text \<open>
  C2, as the code has it. When a name is found in exactly two packs that are not
  language-suffixed, \<open>find_file\<close> gives the first file if its pack is not a Server
  pack, whatever the lengths; else the second if its pack is not a Server pack; and
  only when both are Server packs the one of larger plaintext, the first on equal
  lengths. So a Local entry wins over a Server entry, and of two Local entries the
  first-inserted wins. When the name is found in three or more such packs,
  \<open>find_file\<close> gives no file.
\<close>

theorem find_file_two_candidates:
  "(found_files (packs s) name = [(ka, a), (kb, b)] \<longrightarrow>
      (\<not> is_server_pack (gf_pack_name a) \<longrightarrow>
         find_file X s name e = Inr (Some (ka, a), s))
    \<and> (is_server_pack (gf_pack_name a) \<and> \<not> is_server_pack (gf_pack_name b) \<longrightarrow>
         find_file X s name e = Inr (Some (kb, b), s))
    \<and> (is_server_pack (gf_pack_name a) \<and> is_server_pack (gf_pack_name b)
         \<and> dec_data X a = Inr (da, a') \<and> dec_data X b = Inr (db, b') \<longrightarrow>
         map_sum id fst (find_file X s name e)
           = Inr (Some (if length da < length db then (kb, b') else (ka, a')))))
   \<and> (2 < length (found_files (packs s) name) \<longrightarrow> find_file X s name e = Inr (None, s))"
  unfolding find_file_def
  by (auto simp: Let_def split: list.splits)

theorem find_file_two_candidates_witness:
  "find_file stand_in
     (catalog [pack_of ''MapServer'' [written_file ''foo.csv'' ''MapServer'' [1, 2, 3]],
               pack_of ''DataLocal'' [written_file ''foo.csv'' ''DataLocal'' [1]]])
     ''foo.csv'' False
   = Inr (Some (''DataLocal'', written_file ''foo.csv'' ''DataLocal'' [1]),
          catalog [pack_of ''MapServer'' [written_file ''foo.csv'' ''MapServer'' [1, 2, 3]],
               pack_of ''DataLocal'' [written_file ''foo.csv'' ''DataLocal'' [1]]])"
  using find_file_two_candidates
    [where s = "catalog [pack_of ''MapServer'' [written_file ''foo.csv'' ''MapServer'' [1, 2, 3]],
               pack_of ''DataLocal'' [written_file ''foo.csv'' ''DataLocal'' [1]]]"
       and name = "''foo.csv''" and ka = "''MapServer''"
       and a = "written_file ''foo.csv'' ''MapServer'' [1, 2, 3]"
       and kb = "''DataLocal''" and b = "written_file ''foo.csv'' ''DataLocal'' [1]"
       and X = stand_in and e = False]
  by (simp add: found_files_pack_of catalog_def)

text \<open>
  The claim C2 as stated fails in "if both candidates are Local, the one with the
  larger decrypted length wins": \<open>foo.csv\<close> is in the Local packs \<open>DataLocal\<close>, with a
  plaintext of one byte, and \<open>resLocal\<close>, with a plaintext of three bytes, and
  \<open>find_file\<close> gives the copy of \<open>DataLocal\<close>.
\<close>

theorem find_file_both_local_counterexample:
  "find_file stand_in
     (catalog [pack_of ''DataLocal'' [written_file ''foo.csv'' ''DataLocal'' [1]],
               pack_of ''resLocal'' [written_file ''foo.csv'' ''resLocal'' [1, 2, 3]]])
     ''foo.csv'' False
   = Inr (Some (''DataLocal'', written_file ''foo.csv'' ''DataLocal'' [1]),
          catalog [pack_of ''DataLocal'' [written_file ''foo.csv'' ''DataLocal'' [1]],
               pack_of ''resLocal'' [written_file ''foo.csv'' ''resLocal'' [1, 2, 3]]])
   \<and> dec_data stand_in (written_file ''foo.csv'' ''DataLocal'' [1])
       = Inr ([1], written_file ''foo.csv'' ''DataLocal'' [1])
   \<and> dec_data stand_in (written_file ''foo.csv'' ''resLocal'' [1, 2, 3])
       = Inr ([1, 2, 3], written_file ''foo.csv'' ''resLocal'' [1, 2, 3])"
  by (simp add: find_file_def found_files_pack_of catalog_def dec_data_cached)




subsection \<open>Writing the packs out: \<open>GamePacks.to_packs_lists\<close>\<close>

lemma to_pack_list_file_name:
  "to_pack_list_file X p k i = Inr t \<Longrightarrow> fst t = pack_name p"
  unfolding to_pack_list_file_def
  by (auto simp: Let_def split: sum.splits prod.splits)

lemma to_packs_lists_loop_emits:
  "to_packs_lists_loop X mp should k i ps = Inr out \<Longrightarrow>
   map Inr out = map (\<lambda>(pname, p). to_pack_list_file X p k i)
     (filter (\<lambda>(pname, p). (map_of mp pname \<noteq> None \<or> modified p \<or> should)
                               \<and> \<not> is_server_pack pname) ps)"
proof (induction ps arbitrary: out)
  case Nil
  then show ?case by simp
next
  case (Cons a ps)
  obtain pname p where a: "a = (pname, p)" by (cases a)
  show ?case
    using Cons.prems Cons.IH a
    by (auto split: if_splits sum.splits)
qed

lemma to_packs_lists_loop_names:
  "to_packs_lists_loop X mp should k i ps = Inr out \<Longrightarrow>
   map fst out = map (\<lambda>(pname, p). pack_name p)
     (filter (\<lambda>(pname, p). (map_of mp pname \<noteq> None \<or> modified p \<or> should)
                               \<and> \<not> is_server_pack pname) ps)"
proof (induction ps arbitrary: out)
  case Nil
  then show ?case by simp
next
  case (Cons a ps)
  obtain pname p where a: "a = (pname, p)" by (cases a)
  show ?case
    using Cons.prems Cons.IH a
    by (auto split: if_splits sum.splits dest: to_pack_list_file_name)
qed

lemma to_packs_lists_loop_returns:
  "\<forall>(pname, p) \<in> set (filter (\<lambda>(pname, p). (map_of mp pname \<noteq> None \<or> modified p \<or> should)
                               \<and> \<not> is_server_pack pname) ps).
      \<not> isl (to_pack_list_file X p k i) \<Longrightarrow>
   \<not> isl (to_packs_lists_loop X mp should k i ps)"
proof (induction ps)
  case Nil
  then show ?case by simp
next
  case (Cons a ps)
  obtain pname p where a: "a = (pname, p)" by (cases a)
  show ?case
    using Cons.prems Cons.IH a
    by (auto split: if_splits sum.splits)
qed

lemma pad_pkcs7_length: "length (pad_pkcs7 d) mod 16 = 0"
proof -
  have "(length d + (16 - length d mod 16)) mod 16 = 0" by presburger
  then show ?thesis by (simp add: pad_pkcs7_def Let_def)
qed

lemma stand_in_encrypt_padded:
  "AesCipher_encrypt stand_in c (pad_pkcs7 d) = Inr (pad_pkcs7 d)"
  by (simp add: AesCipher_encrypt_def stand_in_def pad_pkcs7_length)

lemma get_cipher_data_local:
  "get_cipher_from_pack stand_in EN ''DataLocal'' gv_12 False None None =
     Inr \<lparr>key = [0x0a,0xd3,0x9e,0x4a,0xea,0xf5,0x5a,0xa7,0x17,0xfe,0xb1,0x82,0x5e,0xde,0xf5,0x21],
        iv = Some [0xd1,0xd7,0xe7,0x08,0x09,0x19,0x41,0xd9,0x0c,0xdf,0x8a,0xa5,0xf3,0x0b,0xb0,0xc2],
        mode = MODE_CBC, enable = True\<rparr>"
  using get_cipher_local_cc [OF local_names_not_server(2) gv_12_modern
      get_key_iv_from_cc.simps(2) en_key en_iv, of stand_in]
  by (simp only: data_local_not_image_data simp_thms)

lemma encrypt_written_data_local:
  "encrypt stand_in (written_file name ''DataLocal'' d) False None None = Inr (pad_pkcs7 d)"
  unfolding encrypt_def
  by (simp add: written_file_def GameFile_init_def get_cipher_data_local stand_in_encrypt_padded)

lemma to_pack_list_file_returns:
  "encrypt_files stand_in (files p) k i 0 = Inr r \<Longrightarrow>
   \<not> isl (to_pack_list_file stand_in p k i)"
  unfolding to_pack_list_file_def
  by (cases r) (simp add: Let_def stand_in_encrypt_padded)

text \<open>
  C4. When \<open>to_packs_lists\<close> returns, it has emitted, in the order of the catalog,
  \<open>to_pack_list_file\<close> of exactly the packs whose key is not a Server name and that
  are dirty (their key is in \<open>modified_packs\<close>, or their \<open>modified\<close> flag is set) or
  that are re-keyed (a key or an iv is supplied and the game version is at least
  8.9.0); in a catalog whose packs are keyed by their names, as \<open>from_apk\<close> builds
  it, no emitted name is a Server name. It returns whenever \<open>to_pack_list_file\<close>
  returns for each of these packs.
\<close>

theorem to_packs_lists_emits:
  "(to_packs_lists X s k i = Inr out \<longrightarrow>
      map Inr out = map (\<lambda>(pname, p). to_pack_list_file X p k i)
        (filter (\<lambda>(pname, p).
            (map_of (modified_packs s) pname \<noteq> None \<or> modified p
              \<or> ((k \<noteq> None \<or> i \<noteq> None) \<and> \<not> gv_less (gp_gv s) gv_8_9_0))
            \<and> \<not> is_server_pack pname) (packs s))
    \<and> map fst out = map (\<lambda>(pname, p). pack_name p)
        (filter (\<lambda>(pname, p).
            (map_of (modified_packs s) pname \<noteq> None \<or> modified p
              \<or> ((k \<noteq> None \<or> i \<noteq> None) \<and> \<not> gv_less (gp_gv s) gv_8_9_0))
            \<and> \<not> is_server_pack pname) (packs s))
    \<and> ((\<forall>(pname, p) \<in> set (packs s). pack_name p = pname) \<longrightarrow>
          (\<forall>n \<in> set (map fst out). \<not> is_server_pack n)))
   \<and> ((\<forall>(pname, p) \<in> set (filter (\<lambda>(pname, p).
            (map_of (modified_packs s) pname \<noteq> None \<or> modified p
              \<or> ((k \<noteq> None \<or> i \<noteq> None) \<and> \<not> gv_less (gp_gv s) gv_8_9_0))
            \<and> \<not> is_server_pack pname) (packs s)).
          \<not> isl (to_pack_list_file X p k i))
        \<longrightarrow> \<not> isl (to_packs_lists X s k i))"
proof (intro conjI impI)
  assume r: "to_packs_lists X s k i = Inr out"
  show "map Inr out = map (\<lambda>(pname, p). to_pack_list_file X p k i)
        (filter (\<lambda>(pname, p).
            (map_of (modified_packs s) pname \<noteq> None \<or> modified p
              \<or> ((k \<noteq> None \<or> i \<noteq> None) \<and> \<not> gv_less (gp_gv s) gv_8_9_0))
            \<and> \<not> is_server_pack pname) (packs s))"
    using r unfolding to_packs_lists_def Let_def by (rule to_packs_lists_loop_emits)
  show n: "map fst out = map (\<lambda>(pname, p). pack_name p)
        (filter (\<lambda>(pname, p).
            (map_of (modified_packs s) pname \<noteq> None \<or> modified p
              \<or> ((k \<noteq> None \<or> i \<noteq> None) \<and> \<not> gv_less (gp_gv s) gv_8_9_0))
            \<and> \<not> is_server_pack pname) (packs s))"
    using r unfolding to_packs_lists_def Let_def by (rule to_packs_lists_loop_names)
  assume wf: "\<forall>(pname, p) \<in> set (packs s). pack_name p = pname"
  show "\<forall>n \<in> set (map fst out). \<not> is_server_pack n"
    unfolding n using wf by auto
next
  assume "\<forall>(pname, p) \<in> set (filter (\<lambda>(pname, p).
            (map_of (modified_packs s) pname \<noteq> None \<or> modified p
              \<or> ((k \<noteq> None \<or> i \<noteq> None) \<and> \<not> gv_less (gp_gv s) gv_8_9_0))
            \<and> \<not> is_server_pack pname) (packs s)).
          \<not> isl (to_pack_list_file X p k i)"
  then show "\<not> isl (to_packs_lists X s k i)"
    unfolding to_packs_lists_def Let_def by (rule to_packs_lists_loop_returns)
qed


lemma dirty_catalog_selected:
  "filter (\<lambda>(pname, p).
            (map_of (modified_packs dirty_catalog) pname \<noteq> None \<or> modified p
              \<or> ((None \<noteq> (None :: string option) \<or> None \<noteq> (None :: string option))
                    \<and> \<not> gv_less (gp_gv dirty_catalog) gv_8_9_0))
            \<and> \<not> is_server_pack pname) (packs dirty_catalog)
   = [pack_of ''DataLocal'' [written_file ''a.csv'' ''DataLocal'' [1]]]"
  by (auto simp add: dirty_catalog_def catalog_def pack_of_def)

lemma encrypt_files_dirty:
  "encrypt_files stand_in [(''a.csv'', written_file ''a.csv'' ''DataLocal'' [1])] None None 0
     = Inr ([[''a.csv'', str_of_nat 0, str_of_nat (length (pad_pkcs7 [1]))]], [pad_pkcs7 [1]])"
  by (simp only: encrypt_files.simps encrypt_written_data_local sum.case prod.case
        written_file_sel add_0)


lemma dirty_pack_returns:
  "\<not> isl (to_pack_list_file stand_in
            (snd (pack_of ''DataLocal'' [written_file ''a.csv'' ''DataLocal'' [1]])) None None)"
proof (rule to_pack_list_file_returns)
  show "encrypt_files stand_in
     (files (snd (pack_of ''DataLocal'' [written_file ''a.csv'' ''DataLocal'' [1]]))) None None 0
     = Inr ([[''a.csv'', str_of_nat 0, str_of_nat (length (pad_pkcs7 [1]))]], [pad_pkcs7 [1]])"
    using encrypt_files_dirty by (simp add: pack_of_def)
qed

theorem to_packs_lists_emits_witness:
  "\<exists>out. to_packs_lists stand_in dirty_catalog None None = Inr out
      \<and> map fst out = [''DataLocal'']"
proof -
  have "\<not> isl (to_packs_lists stand_in dirty_catalog None None)"
    using to_packs_lists_emits [where X = stand_in and s = dirty_catalog and k = None and i = None,
        THEN conjunct2]
    unfolding dirty_catalog_selected
    using dirty_pack_returns by (simp add: pack_of_def)
  then obtain out where out: "to_packs_lists stand_in dirty_catalog None None = Inr out"
    by (cases "to_packs_lists stand_in dirty_catalog None None") auto
  have names: "map fst out = [''DataLocal'']"
    using to_packs_lists_emits [where X = stand_in and s = dirty_catalog and k = None and i = None
        and out = out, THEN conjunct1, rule_format, OF out, THEN conjunct2, THEN conjunct1]
    unfolding dirty_catalog_selected
    by (simp add: pack_of_def)
  show ?thesis
    by (rule exI [of _ out]) (rule conjI [OF out names])
qed

subsection \<open>Encrypting a file: \<open>GameFile.encrypt\<close>\<close>

lemma dec_data_lazy:
  "private_dec_data f = None \<Longrightarrow> dec_data X f = Inr (d, f') \<Longrightarrow>
   f' = f\<lparr>private_dec_data := Some d\<rparr>"
  unfolding dec_data_def
  by (auto simp: Let_def split: sum.splits option.splits)

lemma pad_pkcs7_longer: "length d < length (pad_pkcs7 d)"
  by (simp add: pad_pkcs7_def Let_def)

lemma encrypt_cached:
  "private_dec_data g = Some d \<Longrightarrow> original_dec_data g = None \<Longrightarrow>
   \<not> is_image_data_local_pack (gf_pack_name g) \<Longrightarrow>
   encrypt X g False k i =
     (case get_cipher_from_pack X (gf_cc g) (gf_pack_name g) (gf_gv g) False k i of
        Inl err \<Rightarrow> Inl err
      | Inr c \<Rightarrow> AesCipher_encrypt X c (pad_pkcs7 d))"
  unfolding encrypt_def by simp

text \<open>
  C1. A file as loaded, with its ciphertext \<open>e\<close> and no plaintext, encrypts to \<open>e\<close>.
  Once its plaintext has been read through \<open>dec_data\<close>, and not changed, \<open>encrypt\<close>
  with no key and no iv no longer gives \<open>e\<close> back: \<open>original_dec_data\<close> is \<open>None\<close>
  from \<open>__init__\<close> on and nothing assigns it, so the test
  \<open>__dec_data == original_dec_data\<close> fails and, outside \<open>ImageDataLocal\<close>, the
  padded plaintext is encrypted again. Under any AES that keeps lengths, when the
  decrypted bytes carried no valid padding (the plaintext is as long as the
  ciphertext) the result is longer than \<open>e\<close>, so it is not \<open>e\<close>.
\<close>

theorem encrypt_after_lazy_decrypt:
  assumes f: "f = GameFile_init (Some e) name pname cc gv k0 i0 None"
    and local: "\<not> is_image_data_local_pack pname"
    and dec: "dec_data X f = Inr (d, f')"
  shows "encrypt X f False None None = Inr e
    \<and> encrypt X f' False None None =
        (case get_cipher_from_pack X cc pname gv False None None of
           Inl err \<Rightarrow> Inl err
         | Inr c \<Rightarrow> AesCipher_encrypt X c (pad_pkcs7 d))
    \<and> ((\<forall>k m i x y. AES_encrypt X k m i x = Some y \<longrightarrow> length y = length x)
          \<and> length e \<le> length d \<longrightarrow>
        encrypt X f' False None None \<noteq> Inr e)"
proof -
  have f': "f' = f\<lparr>private_dec_data := Some d\<rparr>"
    using dec f by (intro dec_data_lazy) (simp_all add: GameFile_init_def)
  have a: "encrypt X f False None None = Inr e"
    using f by (simp add: encrypt_def GameFile_init_def)
  have b: "encrypt X f' False None None =
        (case get_cipher_from_pack X cc pname gv False None None of
           Inl err \<Rightarrow> Inl err
         | Inr c \<Rightarrow> AesCipher_encrypt X c (pad_pkcs7 d))"
    using encrypt_cached [of f' d X None None] local
    by (simp add: f' f GameFile_init_def)
  have c: "encrypt X f' False None None \<noteq> Inr e"
    if len: "\<forall>k m i x y. AES_encrypt X k m i x = Some y \<longrightarrow> length y = length x"
      and le: "length e \<le> length d"
  proof (cases "get_cipher_from_pack X cc pname gv False None None")
    case (Inl err)
    then show ?thesis by (simp add: b)
  next
    case (Inr c)
    have en: "enable c"
      using get_cipher_enable [OF Inr] local by simp
    show ?thesis
    proof (cases "AES_encrypt X (key c) (mode c) (iv c) (pad_pkcs7 d)")
      case None
      then show ?thesis by (simp add: b Inr AesCipher_encrypt_def en)
    next
      case (Some y)
      then have "length y = length (pad_pkcs7 d)" using len by blast
      then have "y \<noteq> e" using le pad_pkcs7_longer [of d] by auto
      then show ?thesis by (simp add: b Inr AesCipher_encrypt_def en Some)
    qed
  qed
  from a b c show ?thesis by blast
qed


lemma unpad_zero_block: "unpad_pkcs7 (replicate 16 0) = None"
  by (simp add: unpad_pkcs7_def)

lemma pad_zero_block: "pad_pkcs7 (replicate 16 0) = replicate 16 0 @ replicate 16 16"
  by (simp add: pad_pkcs7_def)

lemma stand_in_decrypt_block:
  "length d mod 16 = 0 \<Longrightarrow> AesCipher_decrypt stand_in c d = Inr d"
  by (simp add: AesCipher_decrypt_def stand_in_def)

lemma dec_data_zero_block:
  "dec_data stand_in (loaded_file ''unit001.csv'' ''DataLocal'' (replicate 16 0))
     = Inr (replicate 16 0,
            (loaded_file ''unit001.csv'' ''DataLocal'' (replicate 16 0))
              \<lparr>private_dec_data := Some (replicate 16 0)\<rparr>)"
proof -
  have "AesCipher_decrypt stand_in c (replicate 16 0) = Inr (replicate 16 0)" for c
    by (rule stand_in_decrypt_block) simp
  then show ?thesis
    unfolding dec_data_def loaded_file_def GameFile_init_def
    by (simp add: get_cipher_data_local unpad_zero_block Let_def)
qed

theorem encrypt_after_lazy_decrypt_witness:
  "dec_data stand_in (loaded_file ''unit001.csv'' ''DataLocal'' (replicate 16 0))
     = Inr (replicate 16 0,
            (loaded_file ''unit001.csv'' ''DataLocal'' (replicate 16 0))
              \<lparr>private_dec_data := Some (replicate 16 0)\<rparr>)
   \<and> encrypt stand_in (loaded_file ''unit001.csv'' ''DataLocal'' (replicate 16 0))
        False None None = Inr (replicate 16 0)
   \<and> encrypt stand_in
        ((loaded_file ''unit001.csv'' ''DataLocal'' (replicate 16 0))
              \<lparr>private_dec_data := Some (replicate 16 0)\<rparr>)
        False None None = Inr (replicate 16 0 @ replicate 16 16)"
proof -
  note c = encrypt_after_lazy_decrypt [OF loaded_file_def data_local_not_image_data dec_data_zero_block]
  have a: "encrypt stand_in (loaded_file ''unit001.csv'' ''DataLocal'' (replicate 16 0))
        False None None = Inr (replicate 16 0)"
    using c by (rule conjunct1)
  have "encrypt stand_in
        ((loaded_file ''unit001.csv'' ''DataLocal'' (replicate 16 0))
              \<lparr>private_dec_data := Some (replicate 16 0)\<rparr>)
        False None None = Inr (pad_pkcs7 (replicate 16 0))"
    using c [THEN conjunct2, THEN conjunct1]
    by (simp only: get_cipher_data_local sum.case stand_in_encrypt_padded)
  then have b: "encrypt stand_in
        ((loaded_file ''unit001.csv'' ''DataLocal'' (replicate 16 0))
              \<lparr>private_dec_data := Some (replicate 16 0)\<rparr>)
        False None None = Inr (replicate 16 0 @ replicate 16 16)"
    by (simp only: pad_zero_block)
  from dec_data_zero_block a b show ?thesis by (intro conjI)
qed

end
